theory Spec2Isabelle
  imports Complex_Main
begin

section \<open>Data model (types.ts)\<close>

datatype user_type = Passenger | Driver

datatype driver_status = Online | Offline

datatype view = Home | PassengerRegister | DriverRegister | PassengerDashboard
  | DriverDashboard | Searching | TripActive | RateDriver

datatype trip_status = StatusPending | StatusSearching | StatusAccepted

text \<open>
  Field names carry a prefix where two interfaces of the source share a name.
  An optional property (\<open>driverLat?: number\<close>) and a nullable one
  (\<open>number | null\<close>) are options; JavaScript numbers are modelled as reals.
\<close>

record trip =
  tripId :: int
  tPickupLat :: real
  tPickupLng :: real
  tPickupAddress :: string
  tDestinationLat :: real
  tDestinationLng :: real
  tDestinationAddress :: string
  status :: trip_status
  tDistance :: real
  tPrice :: real
  passengerName :: "string option"
  passengerPhone :: "string option"
  passengerPhoto :: "string option"
  driverName :: "string option"
  driverPhone :: "string option"
  driverPlate :: "string option"
  driverLat :: "real option"
  driverLng :: "real option"
  driverPhoto :: "string option"

record driver_profile =
  dName :: string
  dDocumentNumber :: string
  dPhone :: string
  dPlate :: string
  dRating :: real
  dCompletedTrips :: nat
  dPhoto :: "string option"
  dVehiclePhotos :: "string list"

record passenger_profile =
  pName :: string
  pDocumentNumber :: string
  pPhone :: string
  pRating :: real
  pPhoto :: "string option"

record trip_request =
  pickupLat :: "real option"
  pickupLng :: "real option"
  pickupAddress :: string
  destinationLat :: "real option"
  destinationLng :: "real option"
  destinationAddress :: string
  distance :: real
  price :: real

text \<open>The structured answer of the intent service: \<open>{speech, action, value}\<close>.\<close>

record intent =
  action :: string
  ivalue :: string
  speech :: string

section \<open>Component state (App)\<close>

text \<open>
  The \<open>useState\<close> cells of \<open>App\<close>. The cells \<open>trips\<close>, \<open>userLocation\<close> and
  \<open>isFetchingLocation\<close> are left out: the callbacks modelled here write the last two
  and read none of the three.
\<close>

record app =
  userType :: "user_type option"
  currentView :: view
  driverStatus :: driver_status
  activeTrip :: "trip option"
  isListening :: bool
  isProcessing :: bool
  transcript :: string
  aiSpeaking :: bool
  voiceActive :: bool
  driverProfile :: driver_profile
  passengerProfile :: passenger_profile
  tripRequest :: trip_request

text \<open>
  A session is the component state together with everything that lives outside React
  state: the two refs, the timers that are scheduled, the queue of the speech
  synthesiser and the asynchronous calls that are in flight.

  \<^item> \<open>state\<close> holds the latest values given to the state setters;
  \<^item> \<open>stateRef\<close> is \<open>stateRef.current\<close>: the values of the last render whose effect
    has run (the object of the source copies ten of the cells; the model keeps them
    all); closures of a render (\<open>voiceActive\<close> in \<open>toggleVoiceAssistant\<close>,
    \<open>userType\<close> in \<open>completeTrip\<close>) see the same values;
  \<^item> \<open>processingRef\<close> is \<open>processingRef.current\<close>, written by the same effect;
  \<^item> \<open>hasRecognition\<close> says that \<open>recognitionRef.current\<close> is set;
  \<^item> \<open>heartbeat\<close> says that the 2000 ms interval is installed;
  \<^item> \<open>speakTimers\<close> are the pending 50 ms timeouts of \<open>speak\<close>, with their text;
  \<^item> \<open>resumeTimers\<close> counts the pending 200 ms timeouts of \<open>resumeListening\<close>;
  \<^item> \<open>tripTimers\<close> counts the pending 4000 ms timeouts of \<open>requestTrip\<close>;
  \<^item> \<open>synthQueue\<close> are the utterances given to \<open>speechSynthesis\<close> and not finished,
    \<open>interrupted\<close> counts the cancelled ones whose callback is still to come, and
    \<open>spoken\<close> logs every utterance ever given to \<open>speechSynthesis.speak\<close>;
  \<^item> \<open>startCalls\<close> counts the calls of \<open>recognition.start()\<close>;
  \<^item> \<open>pending\<close> are the calls of the intent service that have not answered, each with
    the snapshot object it was given;
  \<^item> \<open>locationRequests\<close> are the running \<open>handleGetCurrentLocation\<close> calls, with the
    query of the \<open>handleSetDestination\<close> call that waits for them, if any;
  \<^item> \<open>destinationCalls\<close> are the \<open>handleSetDestination\<close> calls that are past the
    pickup check, with their query;
  \<^item> \<open>crashed\<close> is set when a state updater raised.
\<close>

record session =
  state :: app
  stateRef :: app
  processingRef :: bool
  hasRecognition :: bool
  heartbeat :: bool
  speakTimers :: "string list"
  resumeTimers :: nat
  tripTimers :: nat
  synthQueue :: "string list"
  interrupted :: nat
  spoken :: "string list"
  startCalls :: nat
  pending :: "(string \<times> app) list"
  locationRequests :: "string option list"
  destinationCalls :: "string list"
  crashed :: bool

definition emptyRequest :: trip_request where
  "emptyRequest = \<lparr> pickupLat = None, pickupLng = None, pickupAddress = [],
     destinationLat = None, destinationLng = None, destinationAddress = [],
     distance = 0, price = 0 \<rparr>"

definition initialApp :: app where
  "initialApp = \<lparr> userType = None, currentView = Home, driverStatus = Offline,
     activeTrip = None, isListening = False, isProcessing = False, transcript = [],
     aiSpeaking = False, voiceActive = False,
     driverProfile = \<lparr> dName = [], dDocumentNumber = [], dPhone = [], dPlate = [],
       dRating = 4.8, dCompletedTrips = 12, dPhoto = None, dVehiclePhotos = [] \<rparr>,
     passengerProfile = \<lparr> pName = [], pDocumentNumber = [], pPhone = [],
       pRating = 5.0, pPhoto = None \<rparr>,
     tripRequest = emptyRequest \<rparr>"

text \<open>The session after the first render, in a browser that has speech recognition.\<close>

definition initialSession :: session where
  "initialSession = \<lparr> state = initialApp, stateRef = initialApp, processingRef = False,
     hasRecognition = True, heartbeat = False, speakTimers = [], resumeTimers = 0,
     tripTimers = 0, synthQueue = [], interrupted = 0, spoken = [], startCalls = 0,
     pending = [], locationRequests = [], destinationCalls = [], crashed = False \<rparr>"

text \<open>A state setter: the update is applied to the latest state.\<close>

definition setState :: "(app \<Rightarrow> app) \<Rightarrow> session \<Rightarrow> session" where
  "setState f w = w\<lparr>state := f (state w)\<rparr>"

section \<open>JavaScript helpers\<close>

text \<open>Truthiness of a \<open>number | null\<close>: \<open>null\<close> and \<open>0\<close> are falsy.\<close>

definition falsy :: "real option \<Rightarrow> bool" where
  "falsy x = (case x of None \<Rightarrow> True | Some v \<Rightarrow> v = 0)"

definition isDigit :: "char \<Rightarrow> bool" where
  "isDigit c = (48 \<le> (of_char c :: nat) \<and> (of_char c :: nat) \<le> 57)"

definition isLower :: "char \<Rightarrow> bool" where
  "isLower c = (97 \<le> (of_char c :: nat) \<and> (of_char c :: nat) \<le> 122)"

definition isUpper :: "char \<Rightarrow> bool" where
  "isUpper c = (65 \<le> (of_char c :: nat) \<and> (of_char c :: nat) \<le> 90)"

definition isAlnum :: "char \<Rightarrow> bool" where
  "isAlnum c = (isLower c \<or> isUpper c \<or> isDigit c)"

text \<open>\<open>s.replace(/\D/g, '')\<close>\<close>

definition stripNonDigits :: "string \<Rightarrow> string" where
  "stripNonDigits s = filter isDigit s"

text \<open>\<open>s.replace(/[^a-zA-Z0-9]/g, '')\<close>\<close>

definition stripNonAlnum :: "string \<Rightarrow> string" where
  "stripNonAlnum s = filter isAlnum s"

definition upperChar :: "char \<Rightarrow> char" where
  "upperChar c = (if isLower c then char_of ((of_char c :: nat) - 32) else c)"

text \<open>\<open>toUpperCase\<close> on a string of ASCII letters and digits.\<close>

definition toUpperCase :: "string \<Rightarrow> string" where
  "toUpperCase s = map upperChar s"

text \<open>
  A string of the model is the UTF-8 encoding of the JavaScript string. The white space
  and line terminators that \<open>String.prototype.trim\<close> removes, as UTF-8 byte sequences:
  U+0009 to U+000D, U+0020, U+00A0, U+1680, U+2000 to U+200A, U+2028, U+2029, U+202F,
  U+205F, U+3000 and U+FEFF.
\<close>

definition jsWhitespace :: "nat list list" where
  "jsWhitespace = [[9], [10], [11], [12], [13], [32], [194, 160], [225, 154, 128],
     [226, 128, 128], [226, 128, 129], [226, 128, 130], [226, 128, 131], [226, 128, 132],
     [226, 128, 133], [226, 128, 134], [226, 128, 135], [226, 128, 136], [226, 128, 137],
     [226, 128, 138], [226, 128, 168], [226, 128, 169], [226, 128, 175], [226, 129, 159],
     [227, 128, 128], [239, 187, 191]]"

text \<open>The number of bytes of the white space character a string starts with, or 0.\<close>

definition spaceLen :: "string \<Rightarrow> nat" where
  "spaceLen s = (case filter (\<lambda>p. take (length p) (map of_char s) = p) jsWhitespace of
       [] \<Rightarrow> 0 | p # ps \<Rightarrow> length p)"

text \<open>\<open>s.trim().length > 0\<close>: some character of \<open>s\<close> is not white space.\<close>

fun nonBlank :: "string \<Rightarrow> bool" where
  "nonBlank [] = False"
| "nonBlank (c # cs) =
     (if spaceLen (c # cs) = 0 then True else nonBlank (drop (spaceLen (c # cs) - 1) cs))"

declare nonBlank.simps(2) [simp del]

text \<open>
  \<open>s.length\<close> counts UTF-16 code units: one for a character of one, two or three
  bytes, two for a character of four bytes. A continuation byte counts for nothing.
\<close>

definition unitsOf :: "char \<Rightarrow> nat" where
  "unitsOf c = (if (of_char c :: nat) < 128 then 1
     else if (of_char c :: nat) < 192 then 0
     else if (of_char c :: nat) < 240 then 1 else 2)"

definition jsLength :: "string \<Rightarrow> nat" where
  "jsLength s = sum_list (map unitsOf s)"

fun digitsOf :: "nat \<Rightarrow> string" where
  "digitsOf n = (if n < 10 then [char_of (48 + n)]
     else digitsOf (n div 10) @ [char_of (48 + n mod 10)])"

declare digitsOf.simps [simp del]

section \<open>Voice logic\<close>

text \<open>What \<open>recognition.start()\<close> does when it is called: it returns, or it throws.\<close>

datatype start_outcome = Started | Throws string

text \<open>
  \<open>startListening\<close>: nothing without a recognition object; nothing while the snapshot
  says speaking, processing or listening. A throw of \<open>start()\<close> is caught and the
  handler body is empty, whatever the error.
\<close>

definition startListening :: "start_outcome \<Rightarrow> session \<Rightarrow> session" where
  "startListening r w =
     (if \<not> hasRecognition w then w
      else if aiSpeaking (stateRef w) \<or> processingRef w \<or> isListening (stateRef w) then w
      else (case r of
          Started \<Rightarrow> setState (\<lambda>s. s\<lparr>isListening := True\<rparr>) (w\<lparr>startCalls := Suc (startCalls w)\<rparr>)
        | Throws e \<Rightarrow> w\<lparr>startCalls := Suc (startCalls w)\<rparr>))"

text \<open>
  \<open>stopListening\<close>: \<open>recognition.stop()\<close>, whose throw is caught and ignored, and
  \<open>setIsListening(false)\<close>.
\<close>

definition stopListening :: "session \<Rightarrow> session" where
  "stopListening w = setState (\<lambda>s. s\<lparr>isListening := False\<rparr>) w"

text \<open>\<open>speechSynthesis.cancel()\<close>: the queue is emptied; the callbacks are still due.\<close>

definition synthCancel :: "session \<Rightarrow> session" where
  "synthCancel w = w\<lparr>synthQueue := [], interrupted := interrupted w + length (synthQueue w)\<rparr>"

definition speak :: "string \<Rightarrow> session \<Rightarrow> session" where
  "speak text w =
     (let w1 = (if synthQueue w \<noteq> [] then synthCancel w else w);
          w2 = stopListening w1;
          w3 = setState (\<lambda>s. s\<lparr>aiSpeaking := True\<rparr>) w2;
          w4 = setState (\<lambda>s. s\<lparr>isProcessing := False\<rparr>) w3
      in w4\<lparr>speakTimers := speakTimers w4 @ [text]\<rparr>)"

text \<open>The 50 ms timeout of \<open>speak\<close> fires: the utterance goes to the synthesiser.\<close>

definition speakTimer :: "session \<Rightarrow> session" where
  "speakTimer w = (case speakTimers w of
       [] \<Rightarrow> w
     | text # rest \<Rightarrow> w\<lparr>speakTimers := rest, synthQueue := synthQueue w @ [text],
         spoken := spoken w @ [text]\<rparr>)"

text \<open>\<open>utterance.onend\<close> and \<open>utterance.onerror\<close>\<close>

definition resumeListening :: "session \<Rightarrow> session" where
  "resumeListening w =
     (let w1 = setState (\<lambda>s. s\<lparr>aiSpeaking := False\<rparr>) w
      in if voiceActive (stateRef w1) then w1\<lparr>resumeTimers := Suc (resumeTimers w1)\<rparr> else w1)"

text \<open>The heartbeat callback.\<close>

definition heartbeatTick :: "start_outcome \<Rightarrow> session \<Rightarrow> session" where
  "heartbeatTick r w =
     (if \<not> isListening (stateRef w) \<and> \<not> aiSpeaking (stateRef w) \<and> \<not> processingRef w
      then startListening r w else w)"

text \<open>
  A render with its effects: the snapshot and \<open>processingRef\<close> are refreshed, and the
  heartbeat interval is installed when the voice switch is on and cleared otherwise.
\<close>

definition render :: "session \<Rightarrow> session" where
  "render w = w\<lparr>stateRef := state w, processingRef := isProcessing (state w),
     heartbeat := voiceActive (state w)\<rparr>"

definition greeting :: string where
  "greeting = ''Hola, soy tu asistente. Dime tu nombre o a d'' @ [CHR 0xC3, CHR 0xB3]
     @ ''nde quieres ir.''"

definition toggleVoiceAssistant :: "session \<Rightarrow> session" where
  "toggleVoiceAssistant w =
     (let newState = (\<not> voiceActive (stateRef w));
          w1 = setState (\<lambda>s. s\<lparr>voiceActive := newState\<rparr>) w
      in if newState then speak greeting w1
         else setState (\<lambda>s. s\<lparr>transcript := []\<rparr>)
               (setState (\<lambda>s. s\<lparr>aiSpeaking := False\<rparr>) (stopListening (synthCancel w1))))"

section \<open>Standard app functions\<close>

text \<open>The number read from a \<open>number | null\<close> in arithmetic; \<open>null\<close> reads as 0.\<close>

definition num :: "real option \<Rightarrow> real" where
  "num x = (case x of None \<Rightarrow> 0 | Some v \<Rightarrow> v)"

definition needDestination :: string where
  "needDestination = ''Primero necesito saber a d'' @ [CHR 0xC3, CHR 0xB3] @ ''nde vas.''"

definition driverFoundPrompt :: string where
  "driverFoundPrompt = [CHR 0xC2, CHR 0xA1] @ ''Conductor encontrado! Juan viene en camino.''"

definition arrivedPrompt :: string where
  "arrivedPrompt = ''Hemos llegado. '' @ [CHR 0xC2, CHR 0xBF] @ ''Cu'' @ [CHR 0xC3, CHR 0xA1]
     @ ''ntas estrellas para el conductor?''"

definition noLocationPrompt :: string where
  "noLocationPrompt = ''No pude obtener tu ubicaci'' @ [CHR 0xC3, CHR 0xB3] @ ''n. Verifica el GPS.''"

text \<open>
  \<open>handleGetCurrentLocation\<close> up to its first \<open>await\<close>. The argument is the query of
  the \<open>handleSetDestination\<close> call that awaits it, if there is one. The answer of the
  location service arrives as \<open>locationFound\<close> or \<open>locationFailed\<close>.
\<close>

definition handleGetCurrentLocation :: "string option \<Rightarrow> session \<Rightarrow> session" where
  "handleGetCurrentLocation k w = w\<lparr>locationRequests := locationRequests w @ [k]\<rparr>"

text \<open>\<open>handleSetDestination\<close> up to the pickup check.\<close>

definition handleSetDestination :: "string \<Rightarrow> session \<Rightarrow> session" where
  "handleSetDestination overrideQuery w =
     (if falsy (pickupLat (tripRequest (stateRef w)))
      then handleGetCurrentLocation (Some overrideQuery) w
      else w\<lparr>destinationCalls := destinationCalls w @ [overrideQuery]\<rparr>)"

definition afterLocation :: "string option \<Rightarrow> session \<Rightarrow> session" where
  "afterLocation k w = (case k of None \<Rightarrow> w
     | Some q \<Rightarrow> w\<lparr>destinationCalls := destinationCalls w @ [q]\<rparr>)"

text \<open>The \<open>try\<close> branch of \<open>handleGetCurrentLocation\<close>, once both awaits have answered.\<close>

definition locationFound :: "real \<Rightarrow> real \<Rightarrow> string \<Rightarrow> session \<Rightarrow> session" where
  "locationFound lat0 lng0 address w = (case locationRequests w of
       [] \<Rightarrow> w
     | k # rest \<Rightarrow> afterLocation k
         (setState (\<lambda>s. s\<lparr>tripRequest := (tripRequest s)\<lparr>pickupLat := Some lat0,
              pickupLng := Some lng0, pickupAddress := address\<rparr>\<rparr>)
            (w\<lparr>locationRequests := rest\<rparr>)))"

text \<open>The \<open>catch\<close> branch of \<open>handleGetCurrentLocation\<close>.\<close>

definition locationFailed :: "session \<Rightarrow> session" where
  "locationFailed w = (case locationRequests w of
       [] \<Rightarrow> w
     | k # rest \<Rightarrow> afterLocation k (speak noLocationPrompt (w\<lparr>locationRequests := rest\<rparr>)))"

text \<open>
  The rest of \<open>handleSetDestination\<close>. \<open>rnd1\<close> and \<open>rnd2\<close> are the two results of
  \<open>Math.random()\<close>, \<open>geocoded\<close> is the answer of \<open>getAddressFromCoords\<close>, \<open>km\<close> and
  \<open>cost\<close> are what \<open>calculateDistance\<close> and \<open>calculatePrice\<close> return (the location
  service is not part of the sources).
\<close>

definition destinationResolved ::
  "real \<Rightarrow> real \<Rightarrow> string \<Rightarrow> real \<Rightarrow> real \<Rightarrow> session \<Rightarrow> session" where
  "destinationResolved rnd1 rnd2 geocoded km cost w = (case destinationCalls w of
       [] \<Rightarrow> w
     | overrideQuery # rest \<Rightarrow>
        (let r = tripRequest (stateRef w);
             baseLat = (if falsy (pickupLat r) then 4.60 else num (pickupLat r));
             baseLng = (if falsy (pickupLng r) then - 74.08 else num (pickupLng r));
             latOffset = (rnd1 - 0.5) * 0.03;
             lngOffset = (rnd2 - 0.5) * 0.03;
             demoLat = baseLat + latOffset;
             demoLng = baseLng + lngOffset;
             address = (if overrideQuery \<noteq> [] \<and> jsLength overrideQuery > 3
                        then overrideQuery else geocoded)
         in setState (\<lambda>s. s\<lparr>tripRequest := (tripRequest s)\<lparr>destinationLat := Some demoLat,
              destinationLng := Some demoLng, destinationAddress := address,
              distance := km, price := cost\<rparr>\<rparr>)
            (w\<lparr>destinationCalls := rest\<rparr>)))"

text \<open>\<open>requestTrip\<close>; \<open>now\<close> is the result of \<open>Date.now()\<close>.\<close>

definition requestTrip :: "int \<Rightarrow> session \<Rightarrow> session" where
  "requestTrip now w =
     (let r = tripRequest (stateRef w) in
      if falsy (pickupLat r) \<or> falsy (destinationLat r) then speak needDestination w
      else
        (let newTrip = \<lparr> tripId = now,
               tPickupLat = num (pickupLat r), tPickupLng = num (pickupLng r),
               tPickupAddress = pickupAddress r,
               tDestinationLat = num (destinationLat r),
               tDestinationLng = num (destinationLng r),
               tDestinationAddress = destinationAddress r,
               status = StatusSearching, tDistance = distance r, tPrice = price r,
               passengerName = Some (pName (passengerProfile (stateRef w))),
               passengerPhone = Some (pPhone (passengerProfile (stateRef w))),
               passengerPhoto = pPhoto (passengerProfile (stateRef w)),
               driverName = None, driverPhone = None, driverPlate = None,
               driverLat = None, driverLng = None, driverPhoto = None \<rparr>;
             w1 = setState (\<lambda>s. s\<lparr>activeTrip := Some newTrip\<rparr>) w;
             w2 = setState (\<lambda>s. s\<lparr>currentView := Searching\<rparr>) w1
         in w2\<lparr>tripTimers := Suc (tripTimers w2)\<rparr>))"

text \<open>
  The 4000 ms timeout of \<open>requestTrip\<close>. Its updater reads \<open>prev!.pickupLat\<close>: with no
  active trip it raises.
\<close>

definition driverFound :: "session \<Rightarrow> session" where
  "driverFound w =
     (if tripTimers w = 0 then w
      else
        (let w0 = w\<lparr>tripTimers := tripTimers w - 1\<rparr>;
             w1 = (case activeTrip (state w0) of
                 None \<Rightarrow> w0\<lparr>crashed := True\<rparr>
               | Some t \<Rightarrow> setState (\<lambda>s. s\<lparr>activeTrip := Some (t\<lparr>status := StatusAccepted,
                     driverName := Some (''Juan P'' @ [CHR 0xC3, CHR 0xA9] @ ''rez''),
                     driverPhone := Some ''310 555 1234'',
                     driverPlate := Some ''XYZ-123'',
                     driverPhoto := Some ''https://ui-avatars.com/api/?name=Juan+P&background=0D8ABC&color=fff'',
                     driverLat := Some (tPickupLat t - 0.005),
                     driverLng := Some (tPickupLng t - 0.005)\<rparr>)\<rparr>) w0);
             w2 = setState (\<lambda>s. s\<lparr>currentView := TripActive\<rparr>) w1
         in speak driverFoundPrompt w2))"

definition completeTrip :: "session \<Rightarrow> session" where
  "completeTrip w =
     (if userType (stateRef w) = Some Passenger
      then speak arrivedPrompt (setState (\<lambda>s. s\<lparr>currentView := RateDriver\<rparr>) w)
      else
        (let w1 = setState (\<lambda>s. s\<lparr>driverProfile := (driverProfile s)\<lparr>dCompletedTrips :=
                     dCompletedTrips (driverProfile s) + 1\<rparr>\<rparr>) w;
             w2 = setState (\<lambda>s. s\<lparr>activeTrip := None\<rparr>) w1;
             w3 = setState (\<lambda>s. s\<lparr>tripRequest := emptyRequest\<rparr>) w2;
             w4 = setState (\<lambda>s. s\<lparr>currentView := DriverDashboard\<rparr>) w3
         in speak ''Viaje terminado.'' w4))"

definition submitRating :: "nat \<Rightarrow> session \<Rightarrow> session" where
  "submitRating rating w =
     (let w1 = setState (\<lambda>s. s\<lparr>activeTrip := None\<rparr>) w;
          w2 = setState (\<lambda>s. s\<lparr>tripRequest := emptyRequest\<rparr>) w1;
          w3 = setState (\<lambda>s. s\<lparr>currentView := PassengerDashboard\<rparr>) w2
      in speak (''Gracias por calificar con '' @ digitsOf rating @ '' estrellas.'') w3)"

definition goBack :: "session \<Rightarrow> session" where
  "goBack w =
     (let view = currentView (stateRef w) in
      if view = PassengerRegister \<or> view = DriverRegister
      then setState (\<lambda>s. s\<lparr>userType := None\<rparr>) (setState (\<lambda>s. s\<lparr>currentView := Home\<rparr>) w)
      else if view = Searching
      then setState (\<lambda>s. s\<lparr>activeTrip := None\<rparr>)
             (setState (\<lambda>s. s\<lparr>currentView := PassengerDashboard\<rparr>) w)
      else if view = DriverDashboard
      then setState (\<lambda>s. s\<lparr>userType := None\<rparr>)
             (setState (\<lambda>s. s\<lparr>driverStatus := Offline\<rparr>)
                (setState (\<lambda>s. s\<lparr>currentView := Home\<rparr>) w))
      else if view = PassengerDashboard
      then setState (\<lambda>s. s\<lparr>userType := None\<rparr>) (setState (\<lambda>s. s\<lparr>currentView := Home\<rparr>) w)
      else if view = RateDriver then submitRating 5 w
      else w)"

section \<open>The intent interpreter and its action switch\<close>

text \<open>
  What the call of the intent service yields: the call rejects (network, timeout), the
  response has no text, the text is not JSON, or it parses to an intent.
\<close>

datatype ai_reply = Rejected | NoText | Unparsable | Parsed intent

datatype error = ServiceError | NoResponse | SyntaxError

text \<open>
  The \<open>switch\<close> of \<open>getGeminiResponse\<close>. \<open>currentState\<close> is the snapshot object that
  was passed in when the transcript arrived; \<open>goBack\<close>, \<open>requestTrip\<close> and
  \<open>handleSetDestination\<close> read \<open>stateRef.current\<close> themselves.
\<close>

definition executeActions :: "int \<Rightarrow> intent \<Rightarrow> app \<Rightarrow> session \<Rightarrow> session" where
  "executeActions now d currentState w =
     (if action d = [] then w
      else if action d = ''NAVIGATE_PASSENGER_REG''
      then setState (\<lambda>s. s\<lparr>currentView := PassengerRegister\<rparr>)
             (setState (\<lambda>s. s\<lparr>userType := Some Passenger\<rparr>) w)
      else if action d = ''NAVIGATE_DRIVER_REG''
      then setState (\<lambda>s. s\<lparr>currentView := DriverRegister\<rparr>)
             (setState (\<lambda>s. s\<lparr>userType := Some Driver\<rparr>) w)
      else if action d = ''SET_PASSENGER_NAME''
      then (if currentView currentState = PassengerRegister \<or> currentView currentState = Home
            then
              (let w1 = (if currentView currentState = Home
                         then setState (\<lambda>s. s\<lparr>currentView := PassengerRegister\<rparr>)
                                (setState (\<lambda>s. s\<lparr>userType := Some Passenger\<rparr>) w)
                         else w)
               in setState (\<lambda>s. s\<lparr>passengerProfile := (passengerProfile s)\<lparr>pName := ivalue d\<rparr>\<rparr>) w1)
            else w)
      else if action d = ''SET_DRIVER_NAME''
      then (if currentView currentState = DriverRegister \<or> currentView currentState = Home
            then
              (let w1 = (if currentView currentState = Home
                         then setState (\<lambda>s. s\<lparr>currentView := DriverRegister\<rparr>)
                                (setState (\<lambda>s. s\<lparr>userType := Some Driver\<rparr>) w)
                         else w)
               in setState (\<lambda>s. s\<lparr>driverProfile := (driverProfile s)\<lparr>dName := ivalue d\<rparr>\<rparr>) w1)
            else w)
      else if action d = ''SET_PASSENGER_PHONE''
      then (let cleanPhoneP = stripNonDigits (ivalue d)
            in setState (\<lambda>s. s\<lparr>passengerProfile := (passengerProfile s)\<lparr>pPhone := cleanPhoneP\<rparr>\<rparr>) w)
      else if action d = ''SET_DRIVER_PHONE''
      then (let cleanPhoneD = stripNonDigits (ivalue d)
            in setState (\<lambda>s. s\<lparr>driverProfile := (driverProfile s)\<lparr>dPhone := cleanPhoneD\<rparr>\<rparr>) w)
      else if action d = ''SET_DRIVER_PLATE''
      then (let cleanPlate = toUpperCase (stripNonAlnum (ivalue d))
            in setState (\<lambda>s. s\<lparr>driverProfile := (driverProfile s)\<lparr>dPlate := cleanPlate\<rparr>\<rparr>) w)
      else if action d = ''NAVIGATE_DESTINATION''
      then handleSetDestination (ivalue d)
             (if currentView currentState = PassengerRegister
              then setState (\<lambda>s. s\<lparr>currentView := PassengerDashboard\<rparr>) w else w)
      else if action d = ''CONFIRM_TRIP''
      then (if currentView currentState = PassengerDashboard
               \<and> \<not> falsy (destinationLat (tripRequest currentState))
            then requestTrip now w else w)
      else if action d = ''CANCEL'' then goBack w
      else w)"

text \<open>
  \<open>getGeminiResponse\<close> from the answer of the service on. \<open>shouldSpeak\<close> is never
  assigned after its initialisation to \<open>true\<close>, so the prompt is always spoken.
\<close>

definition getGeminiResponse :: "int \<Rightarrow> ai_reply \<Rightarrow> app \<Rightarrow> session \<Rightarrow> error + session" where
  "getGeminiResponse now reply currentState w = (case reply of
       Rejected \<Rightarrow> Inl ServiceError
     | NoText \<Rightarrow> Inl NoResponse
     | Unparsable \<Rightarrow> Inl SyntaxError
     | Parsed d \<Rightarrow> Inr (speak (if speech d = [] then ''Entendido.'' else speech d)
                         (executeActions now d currentState w)))"

text \<open>\<open>processVoiceCommand\<close> up to the \<open>await\<close>: the snapshot object is captured here.\<close>

definition processVoiceCommand :: "string \<Rightarrow> session \<Rightarrow> session" where
  "processVoiceCommand text w =
     (let w1 = setState (\<lambda>s. s\<lparr>transcript := text\<rparr>) w;
          w2 = setState (\<lambda>s. s\<lparr>isProcessing := True\<rparr>) w1
      in w2\<lparr>pending := pending w2 @ [(text, stateRef w2)]\<rparr>)"

text \<open>\<open>processVoiceCommand\<close> after the \<open>await\<close>, with its \<open>catch\<close>.\<close>

definition processVoiceCommandResume ::
  "ai_reply \<Rightarrow> start_outcome \<Rightarrow> int \<Rightarrow> session \<Rightarrow> session" where
  "processVoiceCommandResume reply r now w = (case pending w of
       [] \<Rightarrow> w
     | (text, currentState) # rest \<Rightarrow>
        (case getGeminiResponse now reply currentState (w\<lparr>pending := rest\<rparr>) of
           Inr w1 \<Rightarrow> w1
         | Inl e \<Rightarrow>
            (let w1 = setState (\<lambda>s. s\<lparr>isProcessing := False\<rparr>) (w\<lparr>pending := rest\<rparr>)
             in if voiceActive (stateRef w1) then startListening r w1 else w1)))"

section \<open>Recognition callbacks\<close>

definition onstart :: "session \<Rightarrow> session" where
  "onstart w = setState (\<lambda>s. s\<lparr>isListening := True\<rparr>) w"

definition onend :: "session \<Rightarrow> session" where
  "onend w = setState (\<lambda>s. s\<lparr>isListening := False\<rparr>) w"

definition onresult :: "string \<Rightarrow> session \<Rightarrow> session" where
  "onresult result w = (if nonBlank result then processVoiceCommand result w else w)"

definition onerror :: "string \<Rightarrow> session \<Rightarrow> session" where
  "onerror err w = (if err \<noteq> ''no-speech'' then setState (\<lambda>s. s\<lparr>isListening := False\<rparr>) w else w)"

section \<open>Simulation engine\<close>

text \<open>\<open>Math.atan2 y x\<close>: the angle of the point \<open>(x, y)\<close>, in \<open>(-\<pi>, \<pi>]\<close>, and 0 at the origin.\<close>

definition atan2 :: "real \<Rightarrow> real \<Rightarrow> real" where
  "atan2 y x = Arg (Complex x y)"

text \<open>The updater that the simulation interval gives to \<open>setActiveTrip\<close>.\<close>

definition simulationTick :: "trip option \<Rightarrow> trip option" where
  "simulationTick prev = (case prev of
       None \<Rightarrow> prev
     | Some t \<Rightarrow>
        (if falsy (driverLat t) \<or> falsy (driverLng t) then prev
         else
           (let speed = 0.0005;
                targetLat = tPickupLat t;
                targetLng = tPickupLng t;
                dy = targetLat - num (driverLat t);
                dx = targetLng - num (driverLng t);
                dist = sqrt (dx * dx + dy * dy)
            in if dist < 0.0005
               then Some (t\<lparr>driverLat := Some targetLat, driverLng := Some targetLng\<rparr>)
               else
                 (let angle = atan2 dy dx;
                      moveY = sin angle * speed;
                      moveX = cos angle * speed
                  in Some (t\<lparr>driverLat := Some (num (driverLat t) + moveY),
                             driverLng := Some (num (driverLng t) + moveX)\<rparr>)))))"

text \<open>The interval exists while the rendered trip is accepted and the user is a passenger.\<close>

definition simulationInterval :: "session \<Rightarrow> session" where
  "simulationInterval w = (case activeTrip (stateRef w) of
       None \<Rightarrow> w
     | Some t \<Rightarrow>
        (if status t = StatusAccepted \<and> userType (stateRef w) = Some Passenger
         then setState (\<lambda>s. s\<lparr>activeTrip := simulationTick (activeTrip s)\<rparr>) w
         else w))"

section \<open>The event loop\<close>

text \<open>
  Everything that can run a callback of the component: a click, a timer, a callback
  of the recogniser or of the synthesiser, the answer of a service, a render.
\<close>

datatype event =
    ToggleVoice
  | Render
  | HeartbeatTick start_outcome
  | SpeakTimer
  | UtteranceEnd
  | UtteranceError
  | UtteranceInterrupted
  | ResumeTimer start_outcome
  | CaptureStart
  | CaptureEnd
  | CaptureResult string
  | CaptureError string
  | AiReply ai_reply start_outcome int
  | LocationFound real real string
  | LocationFailed
  | DestinationResolved real real string real real
  | RequestTrip int
  | TripTimer
  | SimulationTick
  | CompleteTrip
  | SubmitRating nat
  | GoBack

definition utteranceDone :: "session \<Rightarrow> session" where
  "utteranceDone w = (case synthQueue w of
       [] \<Rightarrow> w
     | u # rest \<Rightarrow> resumeListening (w\<lparr>synthQueue := rest\<rparr>))"

fun step :: "event \<Rightarrow> session \<Rightarrow> session" where
  "step ToggleVoice w = toggleVoiceAssistant w"
| "step Render w = render w"
| "step (HeartbeatTick r) w = (if heartbeat w then heartbeatTick r w else w)"
| "step SpeakTimer w = speakTimer w"
| "step UtteranceEnd w = utteranceDone w"
| "step UtteranceError w = utteranceDone w"
| "step UtteranceInterrupted w =
     (if interrupted w = 0 then w else resumeListening (w\<lparr>interrupted := interrupted w - 1\<rparr>))"
| "step (ResumeTimer r) w =
     (if resumeTimers w = 0 then w else startListening r (w\<lparr>resumeTimers := resumeTimers w - 1\<rparr>))"
| "step CaptureStart w = onstart w"
| "step CaptureEnd w = onend w"
| "step (CaptureResult result) w = onresult result w"
| "step (CaptureError err) w = onerror err w"
| "step (AiReply reply r now) w = processVoiceCommandResume reply r now w"
| "step (LocationFound lat0 lng0 address) w = locationFound lat0 lng0 address w"
| "step LocationFailed w = locationFailed w"
| "step (DestinationResolved rnd1 rnd2 geocoded km cost) w =
     destinationResolved rnd1 rnd2 geocoded km cost w"
| "step (RequestTrip now) w = requestTrip now w"
| "step TripTimer w = driverFound w"
| "step SimulationTick w = simulationInterval w"
| "step CompleteTrip w = completeTrip w"
| "step (SubmitRating rating) w = submitRating rating w"
| "step GoBack w = goBack w"

fun run :: "event list \<Rightarrow> session \<Rightarrow> session" where
  "run [] w = w"
| "run (e # es) w = run es (step e w)"

section \<open>Observations and scenarios\<close>

text \<open>
  The application data of the component, without the flags of the voice session, and
  the asynchronous work that an action can start.
\<close>

definition appData :: "app \<Rightarrow> user_type option \<times> view \<times> driver_status \<times> trip option
    \<times> driver_profile \<times> passenger_profile \<times> trip_request" where
  "appData s = (userType s, currentView s, driverStatus s, activeTrip s, driverProfile s,
     passengerProfile s, tripRequest s)"

definition started :: "session \<Rightarrow> nat \<times> string option list \<times> string list" where
  "started w = (tripTimers w, locationRequests w, destinationCalls w)"

text \<open>
  Scenarios, as event sequences from the initial session: the voice assistant is
  switched on and the greeting is spoken to its end; the recogniser is restarted and
  delivers a transcript; the intent service answers and the prompt is spoken to its end.
\<close>

definition greeted :: "event list" where
  "greeted = [ToggleVoice, Render, SpeakTimer, UtteranceEnd, Render]"

definition heard :: "string \<Rightarrow> event list" where
  "heard text = [ResumeTimer Started, CaptureStart, Render, CaptureResult text, CaptureEnd, Render]"

definition answered :: "intent \<Rightarrow> int \<Rightarrow> event list" where
  "answered d now = [AiReply (Parsed d) Started now, Render, SpeakTimer, UtteranceEnd, Render]"

text \<open>
  A passenger gives a name, asks for a destination from a pickup point at latitude
  0.005, and confirms the trip.
\<close>

definition requestedTrip :: "event list" where
  "requestedTrip = greeted @ heard ''soy Ana''
     @ answered \<lparr>action = ''SET_PASSENGER_NAME'', ivalue = ''Ana'', speech = ''Hola Ana''\<rparr> 0
     @ heard ''a la plaza''
     @ [AiReply (Parsed \<lparr>action = ''NAVIGATE_DESTINATION'', ivalue = ''Plaza'',
           speech = ''Buscando''\<rparr>) Started 0, Render,
        LocationFound 0.005 (- 74.08) ''Finca'', DestinationResolved 0.5 0.5 ''Vereda'' 1 3000,
        Render, SpeakTimer, UtteranceEnd, Render]
     @ heard ''confirmar''
     @ [AiReply (Parsed \<lparr>action = ''CONFIRM_TRIP'', ivalue = [],
           speech = ''Buscando conductor''\<rparr>) Started 1, Render]"

text \<open>
  The driver is found and on the way, and later the passenger has completed the trip and
  is asked for a rating; every prompt has been spoken to its end.
\<close>

definition driverOnTheWay :: "event list" where
  "driverOnTheWay = requestedTrip @ [SpeakTimer, UtteranceEnd, Render,
     TripTimer, Render, SpeakTimer, UtteranceEnd, Render]"

definition askedForRating :: "event list" where
  "askedForRating = driverOnTheWay @ [CompleteTrip, Render, SpeakTimer, UtteranceEnd, Render]"

text \<open>The distance that the simulation tick computes, on a trip.\<close>

definition distanceToTarget :: "trip \<Rightarrow> real" where
  "distanceToTarget t =
     sqrt ((tPickupLng t - num (driverLng t)) * (tPickupLng t - num (driverLng t))
         + (tPickupLat t - num (driverLat t)) * (tPickupLat t - num (driverLat t)))"

text \<open>A passenger asks for a destination while no pickup point is known.\<close>

definition askedDestination :: "event list" where
  "askedDestination = greeted @ heard ''a la plaza''
     @ answered \<lparr>action = ''NAVIGATE_DESTINATION'', ivalue = ''Plaza'', speech = ''Buscando''\<rparr> 0"

text \<open>
  The snapshot is up to date, and the two flags are not both true. \<open>runRendered\<close> runs
  events with a render after each one; \<open>timely\<close> says that the \<open>start\<close> event of the
  recogniser only arrives while \<open>isListening\<close> is still set.
\<close>

definition synced :: "session \<Rightarrow> bool" where
  "synced w = (stateRef w = state w \<and> processingRef w = isProcessing (state w))"

definition exclusive :: "session \<Rightarrow> bool" where
  "exclusive w = (\<not> (isListening (state w) \<and> aiSpeaking (state w)))"

fun runRendered :: "event list \<Rightarrow> session \<Rightarrow> session" where
  "runRendered [] w = w"
| "runRendered (e # es) w = runRendered es (render (step e w))"

fun timely :: "event list \<Rightarrow> session \<Rightarrow> bool" where
  "timely [] w = True"
| "timely (e # es) w =
     ((e \<noteq> CaptureStart \<or> isListening (state w)) \<and> timely es (render (step e w)))"

section \<open>Auxiliary lemmas\<close>

lemma spaceLen_ascii:
  assumes "32 < (of_char c :: nat)" and "(of_char c :: nat) < 128"
  shows "spaceLen (c # cs) = 0"
  using assms by (simp add: spaceLen_def jsWhitespace_def)

lemma nonBlank_ascii:
  "32 < (of_char c :: nat) \<Longrightarrow> (of_char c :: nat) < 128 \<Longrightarrow> nonBlank (c # cs)"
  by (simp add: nonBlank.simps(2) spaceLen_ascii)

lemmas session_defs = initialSession_def initialApp_def emptyRequest_def setState_def
  startListening_def stopListening_def synthCancel_def speak_def speakTimer_def resumeListening_def
  heartbeatTick_def render_def toggleVoiceAssistant_def utteranceDone_def
  handleGetCurrentLocation_def handleSetDestination_def afterLocation_def locationFound_def locationFailed_def
  destinationResolved_def requestTrip_def driverFound_def completeTrip_def submitRating_def goBack_def
  executeActions_def getGeminiResponse_def processVoiceCommand_def processVoiceCommandResume_def
  onstart_def onend_def onresult_def onerror_def simulationInterval_def falsy_def num_def nonBlank_ascii jsLength_def unitsOf_def
  appData_def started_def greeted_def heard_def answered_def requestedTrip_def askedDestination_def driverOnTheWay_def askedForRating_def Let_def

lemma run_append: "run (xs @ ys) w = run ys (run xs w)"
  by (induction xs arbitrary: w) auto

lemma startListening_cases:
  "startListening r w = w \<or> startListening r w = w\<lparr>startCalls := Suc (startCalls w)\<rparr>
   \<or> startListening r w = setState (\<lambda>s. s\<lparr>isListening := True\<rparr>) (w\<lparr>startCalls := Suc (startCalls w)\<rparr>)"
  by (cases r) (simp_all add: startListening_def)

lemma startListening_frame:
  "speakTimers (startListening r w) = speakTimers w"
  "synthQueue (startListening r w) = synthQueue w"
  "spoken (startListening r w) = spoken w"
  "started (startListening r w) = started w"
  "hasRecognition (startListening r w) = hasRecognition w"
  "appData (state (startListening r w)) = appData (state w)"
  "isProcessing (state (startListening r w)) = isProcessing (state w)"
  "aiSpeaking (state (startListening r w)) = aiSpeaking (state w)"
  "voiceActive (state (startListening r w)) = voiceActive (state w)"
  using startListening_cases [of r w]
  by (auto simp: setState_def started_def appData_def)

lemma heartbeat_resumes:
  assumes "voiceActive (state v)" and "hasRecognition v" and "\<not> aiSpeaking (state v)"
    and "\<not> isProcessing (state v)"
  shows "isListening (state (run [Render, HeartbeatTick Started] v))"
  using assms
  by (cases "isListening (state v)")
     (simp_all add: render_def heartbeatTick_def startListening_def setState_def)

lemma phone_example: "stripNonDigits ''310 555 9999'' = ''3105559999''"
  by code_simp

lemma plate_example: "toUpperCase (stripNonAlnum ''x y z 555'') = ''XYZ555''"
  by code_simp

lemma strip_unfold:
  "stripNonDigits v = filter isDigit v"
  "toUpperCase (stripNonAlnum v) = map upperChar (filter isAlnum v)"
  by (simp_all add: stripNonDigits_def stripNonAlnum_def toUpperCase_def)

lemma destination_hint:
  "destinationAddress (tripRequest (state
      (destinationResolved rnd1 rnd2 geocoded km cost (w\<lparr>destinationCalls := q # rest\<rparr>))))
    = (if jsLength q > 3 then q else geocoded)"
  by (auto simp: destinationResolved_def setState_def jsLength_def Let_def)

lemma trim_examples:
  "nonBlank ''hola''"
  "\<not> nonBlank [CHR 0xC2, CHR 0xA0, CHR '' '', CHR 0xE3, CHR 0x80, CHR 0x80]"
  "jsLength (''R'' @ [CHR 0xC3, CHR 0xAD] @ ''o'') = 3"
  by code_simp+

lemma speakTimer_all:
  "run (replicate (length (speakTimers w)) SpeakTimer) w
     = w\<lparr>speakTimers := [], synthQueue := synthQueue w @ speakTimers w,
         spoken := spoken w @ speakTimers w\<rparr>"
proof (induction "speakTimers w" arbitrary: w)
  case Nil
  from Nil [symmetric] show ?case
    by simp
next
  case (Cons t ts)
  let ?w1 = "w\<lparr>speakTimers := ts, synthQueue := synthQueue w @ [t], spoken := spoken w @ [t]\<rparr>"
  have s: "step SpeakTimer w = ?w1"
    using Cons(2) [symmetric] by (simp add: speakTimer_def)
  have "run (replicate (length (speakTimers ?w1)) SpeakTimer) ?w1
      = ?w1\<lparr>speakTimers := [], synthQueue := synthQueue ?w1 @ speakTimers ?w1,
          spoken := spoken ?w1 @ speakTimers ?w1\<rparr>"
    by (rule Cons(1)) simp
  then show ?case
    using Cons(2) [symmetric] s by simp
qed

lemma speak_effect:
  "speakTimers (speak t w) = speakTimers w @ [t]"
  "synthQueue (speak t w) = []"
  "spoken (speak t w) = spoken w"
  "started (speak t w) = started w"
  "appData (state (speak t w)) = appData (state w)"
  by (simp_all add: speak_def stopListening_def synthCancel_def setState_def started_def
      appData_def Let_def)

text \<open>
  What \<open>speak\<close> schedules reaches the synthesiser: once the pending 50 ms timeouts have
  fired, the text is the last utterance given to \<open>speechSynthesis.speak\<close>.
\<close>

lemma speak_delivered:
  "spoken (run (replicate (length (speakTimers (speak t w))) SpeakTimer) (speak t w))
     = spoken w @ speakTimers w @ [t]"
  "synthQueue (run (replicate (length (speakTimers (speak t w))) SpeakTimer) (speak t w))
     = speakTimers w @ [t]"
  "state (run (replicate (length (speakTimers (speak t w))) SpeakTimer) (speak t w))
     = state (speak t w)"
proof -
  have e: "run (replicate (length (speakTimers (speak t w))) SpeakTimer) (speak t w)
      = (speak t w)\<lparr>speakTimers := [],
          synthQueue := synthQueue (speak t w) @ speakTimers (speak t w),
          spoken := spoken (speak t w) @ speakTimers (speak t w)\<rparr>"
    by (rule speakTimer_all)
  show "spoken (run (replicate (length (speakTimers (speak t w))) SpeakTimer) (speak t w))
     = spoken w @ speakTimers w @ [t]"
    unfolding e by (simp add: speak_effect)
  show "synthQueue (run (replicate (length (speakTimers (speak t w))) SpeakTimer) (speak t w))
     = speakTimers w @ [t]"
    unfolding e by (simp add: speak_effect)
  show "state (run (replicate (length (speakTimers (speak t w))) SpeakTimer) (speak t w))
     = state (speak t w)"
    unfolding e by simp
qed

lemma failing_ticks_keep_state:
  "state (run (concat (map (\<lambda>e. [Render, HeartbeatTick (Throws e)]) es)) w) = state w
   \<and> hasRecognition (run (concat (map (\<lambda>e. [Render, HeartbeatTick (Throws e)]) es)) w)
       = hasRecognition w"
proof (induction es arbitrary: w)
  case Nil
  then show ?case by simp
next
  case (Cons e es)
  let ?w1 = "step (HeartbeatTick (Throws e)) (step Render w)"
  have "state ?w1 = state w" and "hasRecognition ?w1 = hasRecognition w"
    by (simp_all add: render_def heartbeatTick_def startListening_def)
  then show ?case
    using Cons.IH [of ?w1] by simp
qed

lemma digits5: "digitsOf 5 = ''5''"
  by code_simp

lemma heartbeat_retries:
  assumes "voiceActive (state w)" and "hasRecognition w" and "\<not> isListening (state w)"
    and "\<not> aiSpeaking (state w)" and "\<not> isProcessing (state w)"
  shows "let w' = run (concat (replicate n [Render, HeartbeatTick (Throws e)])) w
         in state w' = state w \<and> startCalls w' = startCalls w + n \<and> hasRecognition w'"
  using assms
proof (induction n arbitrary: w)
  case 0
  then show ?case by simp
next
  case (Suc n)
  let ?w1 = "step (HeartbeatTick (Throws e)) (step Render w)"
  have s: "state ?w1 = state w" and c: "startCalls ?w1 = Suc (startCalls w)"
    and h: "hasRecognition ?w1"
    using Suc.prems by (simp_all add: session_defs)
  have "let w' = run (concat (replicate n [Render, HeartbeatTick (Throws e)])) ?w1
        in state w' = state ?w1 \<and> startCalls w' = startCalls ?w1 + n \<and> hasRecognition w'"
    using Suc.prems s h by (intro Suc.IH) simp_all
  then show ?case
    using s c by (simp add: Let_def)
qed

subsection \<open>Listening and speaking exclude each other when renders keep up\<close>

text \<open>
  When a render follows every event, so that every guard reads an up-to-date snapshot,
  and the \<open>start\<close> event of the recogniser is timely, the flags \<open>isListening\<close> and
  \<open>aiSpeaking\<close> are never both true.
\<close>

lemma exclusive_speak: "exclusive (speak t w)"
  by (simp add: exclusive_def speak_def stopListening_def synthCancel_def setState_def Let_def)

lemma exclusive_startListening:
  "synced w \<Longrightarrow> exclusive w \<Longrightarrow> exclusive (startListening r w)"
  by (cases r) (auto simp: exclusive_def synced_def startListening_def setState_def)

lemma exclusive_cong:
  "isListening (state w') = isListening (state w) \<Longrightarrow> aiSpeaking (state w') = aiSpeaking (state w)
    \<Longrightarrow> exclusive w \<Longrightarrow> exclusive w'"
  by (simp add: exclusive_def)

lemma synced_cong:
  "stateRef w' = stateRef w \<Longrightarrow> state w' = state w \<Longrightarrow> processingRef w' = processingRef w
    \<Longrightarrow> synced w \<Longrightarrow> synced w'"
  by (simp add: synced_def)

lemma exclusive_afterLocation: "exclusive (afterLocation k w) = exclusive w"
  by (cases k) (simp_all add: afterLocation_def exclusive_def)

lemma exclusive_submitRating: "exclusive (submitRating n w)"
  by (simp add: submitRating_def Let_def exclusive_speak)

lemma exclusive_goBack: "exclusive w \<Longrightarrow> exclusive (goBack w)"
  by (simp add: goBack_def Let_def exclusive_submitRating) (simp add: exclusive_def setState_def)

lemma exclusive_requestTrip: "exclusive w \<Longrightarrow> exclusive (requestTrip now w)"
  by (simp add: requestTrip_def Let_def exclusive_speak) (simp add: exclusive_def setState_def)

lemma exclusive_reply:
  assumes "synced w" and "exclusive w"
  shows "exclusive (processVoiceCommandResume reply r now w)"
proof (cases "pending w")
  case Nil
  then show ?thesis
    using assms by (simp add: processVoiceCommandResume_def)
next
  case (Cons p rest)
  obtain t cs where p: "p = (t, cs)"
    by (cases p)
  let ?w0 = "setState (\<lambda>s. s\<lparr>isProcessing := False\<rparr>) (w\<lparr>pending := rest\<rparr>)"
  have r: "aiSpeaking (stateRef ?w0) = aiSpeaking (state ?w0)"
    "isListening (stateRef ?w0) = isListening (state ?w0)" "exclusive ?w0"
    using assms by (simp_all add: synced_def exclusive_def setState_def)
  have s: "exclusive (startListening r ?w0)"
    using r by (cases r) (auto simp: exclusive_def startListening_def setState_def)
  show ?thesis
    using Cons p r s
    by (cases reply)
       (simp_all add: processVoiceCommandResume_def getGeminiResponse_def exclusive_speak Let_def)
qed

lemma exclusive_step:
  assumes "synced w" and "exclusive w" and "e \<noteq> CaptureStart \<or> isListening (state w)"
  shows "exclusive (step e w)"
proof (cases e)
  case ToggleVoice
  then show ?thesis
    by (simp add: toggleVoiceAssistant_def Let_def exclusive_speak)
       (simp add: exclusive_def setState_def stopListening_def synthCancel_def)
next
  case Render
  then show ?thesis
    using assms(2) by (simp add: render_def exclusive_def)
next
  case (HeartbeatTick r)
  then show ?thesis
    using assms by (simp add: heartbeatTick_def exclusive_startListening)
next
  case SpeakTimer
  then show ?thesis
    using assms(2) by (simp add: speakTimer_def exclusive_def split: list.splits)
next
  case UtteranceEnd
  then show ?thesis
    by (simp add: utteranceDone_def resumeListening_def exclusive_def setState_def Let_def
        split: list.splits) (use assms(2) in \<open>simp add: exclusive_def\<close>)
next
  case UtteranceError
  then show ?thesis
    by (simp add: utteranceDone_def resumeListening_def exclusive_def setState_def Let_def
        split: list.splits) (use assms(2) in \<open>simp add: exclusive_def\<close>)
next
  case UtteranceInterrupted
  then show ?thesis
    using assms(2) by (simp add: resumeListening_def exclusive_def setState_def Let_def)
next
  case (ResumeTimer r)
  have "synced (w\<lparr>resumeTimers := resumeTimers w - 1\<rparr>)"
    "exclusive (w\<lparr>resumeTimers := resumeTimers w - 1\<rparr>)"
    using assms by (simp_all add: synced_def exclusive_def)
  then show ?thesis
    using ResumeTimer assms(2) by (simp add: exclusive_startListening)
next
  case CaptureStart
  then show ?thesis
    using assms(2,3) by (simp add: onstart_def exclusive_def setState_def)
next
  case CaptureEnd
  then show ?thesis
    by (simp add: onend_def exclusive_def setState_def)
next
  case (CaptureResult x)
  then show ?thesis
    using assms(2)
    by (simp add: onresult_def processVoiceCommand_def exclusive_def setState_def Let_def)
next
  case (CaptureError x)
  then show ?thesis
    using assms(2) by (simp add: onerror_def exclusive_def setState_def)
next
  case (AiReply reply r now)
  then show ?thesis
    using assms by (simp add: exclusive_reply)
next
  case (LocationFound a b c)
  then show ?thesis
    using assms(2)
    by (simp add: locationFound_def exclusive_afterLocation split: list.splits)
       (simp add: exclusive_def setState_def)
next
  case LocationFailed
  then show ?thesis
    using assms(2)
    by (simp add: locationFailed_def exclusive_afterLocation exclusive_speak split: list.splits)
next
  case (DestinationResolved a b c d e)
  then show ?thesis
    using assms(2)
    by (simp add: destinationResolved_def Let_def split: list.splits)
       (simp add: exclusive_def setState_def)
next
  case (RequestTrip now)
  then show ?thesis
    using assms(2) by (simp add: exclusive_requestTrip)
next
  case TripTimer
  then show ?thesis
    using assms(2) by (simp add: driverFound_def Let_def exclusive_speak)
next
  case SimulationTick
  then show ?thesis
    using assms(2)
    by (simp add: simulationInterval_def split: option.splits) (simp add: exclusive_def setState_def)
next
  case CompleteTrip
  then show ?thesis
    by (simp add: completeTrip_def Let_def exclusive_speak)
next
  case (SubmitRating n)
  then show ?thesis
    by (simp add: exclusive_submitRating)
next
  case GoBack
  then show ?thesis
    using assms(2) by (simp add: exclusive_goBack)
qed

lemma synced_render: "synced (render w)"
  by (simp add: synced_def render_def)

lemma exclusive_render: "exclusive (render w) = exclusive w"
  by (simp add: exclusive_def render_def)

lemma exclusive_when_rendered:
  "synced w \<Longrightarrow> exclusive w \<Longrightarrow> timely es w \<Longrightarrow> exclusive (runRendered es w)"
proof (induction es arbitrary: w)
  case Nil
  then show ?case by simp
next
  case (Cons e es)
  have "exclusive (render (step e w))"
    using Cons.prems by (simp add: exclusive_render exclusive_step)
  then show ?case
    using Cons.prems by (simp add: Cons.IH synced_render)
qed

lemma exclusive_from_start:
  "timely es initialSession \<Longrightarrow> exclusive (runRendered es initialSession)"
  by (rule exclusive_when_rendered) (simp_all add: synced_def exclusive_def initialSession_def initialApp_def)

subsection \<open>The simulation tick over the reals\<close>

text \<open>
  With both driver coordinates different from 0, the tick moves the driver 0.0005
  closer to the pickup point while the distance is at least 0.0005, puts the driver on
  the pickup point once the distance is below 0.0005, and changes nothing from then on.
\<close>

lemma direction:
  assumes "0 < sqrt (dx * dx + dy * dy)"
  shows "sin (atan2 dy dx) = dy / sqrt (dx * dx + dy * dy)"
    and "cos (atan2 dy dx) = dx / sqrt (dx * dx + dy * dy)"
proof -
  have nz: "Complex dx dy \<noteq> 0"
    using assms by (auto simp: complex_eq_iff)
  have n: "cmod (Complex dx dy) = sqrt (dx * dx + dy * dy)"
    by (simp add: cmod_def power2_eq_square)
  show "sin (atan2 dy dx) = dy / sqrt (dx * dx + dy * dy)"
    using sin_Arg [OF nz] n by (simp add: atan2_def)
  show "cos (atan2 dy dx) = dx / sqrt (dx * dx + dy * dy)"
    using cos_Arg [OF nz] n by (simp add: atan2_def)
qed

lemma shrink:
  fixes dx dy s :: real
  assumes "s \<le> sqrt (dx * dx + dy * dy)" and "0 < s"
  shows "sqrt ((dx - dx / sqrt (dx * dx + dy * dy) * s) * (dx - dx / sqrt (dx * dx + dy * dy) * s)
             + (dy - dy / sqrt (dx * dx + dy * dy) * s) * (dy - dy / sqrt (dx * dx + dy * dy) * s))
         = sqrt (dx * dx + dy * dy) - s"
proof -
  define n where "n = sqrt (dx * dx + dy * dy)"
  define k where "k = 1 - s / n"
  have sn: "s \<le> n"
    using assms(1) by (simp only: n_def)
  have npos: "0 < n"
    using sn assms(2) by linarith
  have nn: "n * n = dx * dx + dy * dy"
    unfolding n_def by (simp add: add_nonneg_nonneg)
  have kpos: "0 \<le> k"
    using npos sn by (simp add: k_def)
  have e1: "dx - dx / n * s = k * dx" and e2: "dy - dy / n * s = k * dy"
    by (simp_all add: k_def algebra_simps)
  have "(k * dx) * (k * dx) + (k * dy) * (k * dy) = k * k * (dx * dx + dy * dy)"
    by (simp add: algebra_simps)
  also have "\<dots> = k * k * (n * n)"
    by (simp only: nn)
  also have "\<dots> = (k * n) * (k * n)"
    by (simp add: algebra_simps)
  finally have "sqrt ((k * dx) * (k * dx) + (k * dy) * (k * dy)) = \<bar>k * n\<bar>"
    by simp
  also have "\<dots> = k * n"
    using kpos npos by (simp add: abs_mult)
  also have "\<dots> = n - s"
    using npos by (simp add: k_def field_simps)
  finally show ?thesis
    unfolding n_def [symmetric] e1 e2 .
qed

lemma moved:
  fixes la lo tla tlo :: real
  defines "dy \<equiv> tla - la" and "dx \<equiv> tlo - lo"
  assumes far: "0.0005 \<le> sqrt (dx * dx + dy * dy)"
  shows "sqrt ((tlo - (lo + cos (atan2 dy dx) * 0.0005)) * (tlo - (lo + cos (atan2 dy dx) * 0.0005))
             + (tla - (la + sin (atan2 dy dx) * 0.0005)) * (tla - (la + sin (atan2 dy dx) * 0.0005)))
         = sqrt (dx * dx + dy * dy) - 0.0005"
proof -
  have eps: "(0::real) < 0.0005"
    by simp
  have pos: "0 < sqrt (dx * dx + dy * dy)"
    using far eps by linarith
  have a: "tlo - (lo + cos (atan2 dy dx) * 0.0005) = dx - dx / sqrt (dx * dx + dy * dy) * 0.0005"
    unfolding direction [OF pos] by (simp add: dx_def)
  have b: "tla - (la + sin (atan2 dy dx) * 0.0005) = dy - dy / sqrt (dx * dx + dy * dy) * 0.0005"
    unfolding direction [OF pos] by (simp add: dy_def)
  show ?thesis
    unfolding a b using far eps by (rule shrink)
qed

lemma simulationTick_moves:
  assumes "\<not> falsy (driverLat t)" and "\<not> falsy (driverLng t)"
    and "0.0005 \<le> distanceToTarget t"
  shows "\<exists>t'. simulationTick (Some t) = Some t'
           \<and> distanceToTarget t' = distanceToTarget t - 0.0005"
proof -
  obtain la lo where c: "driverLat t = Some la" "driverLng t = Some lo"
    using assms(1,2) by (auto simp: falsy_def split: option.splits)
  define dy where "dy = tPickupLat t - la"
  define dx where "dx = tPickupLng t - lo"
  have d: "distanceToTarget t = sqrt (dx * dx + dy * dy)"
    by (simp add: distanceToTarget_def c num_def dx_def dy_def)
  have far: "0.0005 \<le> sqrt (dx * dx + dy * dy)"
    using assms(3) d by simp
  let ?t' = "t\<lparr>driverLat := Some (la + sin (atan2 dy dx) * 0.0005),
                driverLng := Some (lo + cos (atan2 dy dx) * 0.0005)\<rparr>"
  have tick: "simulationTick (Some t) = Some ?t'"
    using assms(1,2) far
    by (simp add: simulationTick_def c num_def Let_def dx_def dy_def)
  have "distanceToTarget ?t'
      = sqrt ((tPickupLng t - (lo + cos (atan2 dy dx) * 0.0005))
                * (tPickupLng t - (lo + cos (atan2 dy dx) * 0.0005))
            + (tPickupLat t - (la + sin (atan2 dy dx) * 0.0005))
                * (tPickupLat t - (la + sin (atan2 dy dx) * 0.0005)))"
    by (simp add: distanceToTarget_def num_def)
  also have "\<dots> = sqrt (dx * dx + dy * dy) - 0.0005"
    unfolding dx_def dy_def by (rule moved) (use far in \<open>simp add: dx_def dy_def\<close>)
  finally show ?thesis
    using tick d by simp
qed

lemma simulationTick_arrives:
  assumes "\<not> falsy (driverLat t)" and "\<not> falsy (driverLng t)"
    and "distanceToTarget t < 0.0005"
  shows "simulationTick (Some t)
      = Some (t\<lparr>driverLat := Some (tPickupLat t), driverLng := Some (tPickupLng t)\<rparr>)"
  using assms by (simp add: simulationTick_def distanceToTarget_def Let_def)

lemma simulationTick_at_target:
  assumes "driverLat t = Some (tPickupLat t)" and "driverLng t = Some (tPickupLng t)"
  shows "simulationTick (Some t) = Some t"
  using assms by (simp add: simulationTick_def num_def Let_def)

section \<open>The claims\<close>

text \<open>
  C1. The flags \<open>isListening\<close> and \<open>aiSpeaking\<close> are meant never to be true together:
  \<open>speak\<close> stops the capture before it sets \<open>aiSpeaking\<close>, and \<open>startListening\<close> does
  nothing while the snapshot says speaking or processing. Two event sequences from the
  initial session end with both flags true. In the first, the location service fails
  while the session is idle, \<open>speak\<close> sets \<open>aiSpeaking\<close>, and the heartbeat fires before
  the effect has refreshed the snapshot: its guard reads the old \<open>aiSpeaking\<close>. In the
  second, \<open>speak\<close> comes between \<open>recognition.start()\<close> and the \<open>start\<close> event of the
  recogniser, whose callback sets \<open>isListening\<close> without a guard. (Lemma
  \<open>exclusive_from_start\<close> shows that these are the only two ways.)
\<close>

theorem listening_while_speaking:
  "(let w = run (askedDestination @ [ResumeTimer Started, CaptureStart, CaptureEnd, Render,
                   LocationFailed, HeartbeatTick Started]) initialSession
    in isListening (state w) \<and> aiSpeaking (state w))
   \<and> (let w = run (askedDestination @ [ResumeTimer Started, Render, LocationFailed, Render,
                   CaptureStart]) initialSession
    in isListening (state w) \<and> aiSpeaking (state w))"
  by (simp add: session_defs askedDestination_def)

text \<open>
  C2, as the code has it. When the call of the intent service fails (it rejects, the
  response has no text, or the text does not parse), no prompt is scheduled or spoken,
  the application data and the pending asynchronous work are unchanged, and the
  processing flag is cleared. With the voice switch on, a recogniser and no speech going
  on, the session is listening after the first heartbeat tick whose \<open>start()\<close> succeeds,
  however many ticks before it had a \<open>start()\<close> that threw (a render before each tick).
\<close>

theorem intent_failure_silent:
  assumes "pending w \<noteq> []"
    and "reply = Rejected \<or> reply = NoText \<or> reply = Unparsable"
  shows "let w' = step (AiReply reply r now) w in
           speakTimers w' = speakTimers w \<and> synthQueue w' = synthQueue w \<and> spoken w' = spoken w
         \<and> appData (state w') = appData (state w) \<and> started w' = started w
         \<and> \<not> isProcessing (state w')
         \<and> (voiceActive (state w) \<and> hasRecognition w \<and> \<not> aiSpeaking (state w)
              \<longrightarrow> isListening (state
                    (run (concat (map (\<lambda>e. [Render, HeartbeatTick (Throws e)]) es)
                            @ [Render, HeartbeatTick Started]) w')))"
proof -
  obtain t cs rest where p: "pending w = (t, cs) # rest"
    using assms(1) by (cases "pending w") auto
  define w0 where "w0 = setState (\<lambda>s. s\<lparr>isProcessing := False\<rparr>) (w\<lparr>pending := rest\<rparr>)"
  define w' where "w' = (if voiceActive (stateRef w0) then startListening r w0 else w0)"
  have e: "getGeminiResponse now reply cs (w\<lparr>pending := rest\<rparr>) = Inl ServiceError
      \<or> getGeminiResponse now reply cs (w\<lparr>pending := rest\<rparr>) = Inl NoResponse
      \<or> getGeminiResponse now reply cs (w\<lparr>pending := rest\<rparr>) = Inl SyntaxError"
    using assms(2) by (auto simp: getGeminiResponse_def)
  have s: "step (AiReply reply r now) w = w'"
    using e p by (auto simp: processVoiceCommandResume_def w'_def w0_def Let_def)
  have f0: "speakTimers w0 = speakTimers w" "synthQueue w0 = synthQueue w" "spoken w0 = spoken w"
    "appData (state w0) = appData (state w)" "started w0 = started w"
    "\<not> isProcessing (state w0)" "isListening (state w0) = isListening (state w)"
    "voiceActive (state w0) = voiceActive (state w)" "hasRecognition w0 = hasRecognition w"
    "aiSpeaking (state w0) = aiSpeaking (state w)" "processingRef w0 = processingRef w"
    by (simp_all add: w0_def setState_def appData_def started_def)
  have f1: "speakTimers w' = speakTimers w" "synthQueue w' = synthQueue w" "spoken w' = spoken w"
    "appData (state w') = appData (state w)" "started w' = started w"
    "\<not> isProcessing (state w')"
    "voiceActive (state w') = voiceActive (state w)" "hasRecognition w' = hasRecognition w"
    "aiSpeaking (state w') = aiSpeaking (state w)"
    using f0 by (simp_all add: w'_def startListening_frame)
  define v where "v = run (concat (map (\<lambda>e. [Render, HeartbeatTick (Throws e)]) es)) w'"
  have fv: "state v = state w'" "hasRecognition v = hasRecognition w'"
    using failing_ticks_keep_state [of es w'] by (simp_all add: v_def)
  have f3: "voiceActive (state w) \<and> hasRecognition w \<and> \<not> aiSpeaking (state w)
      \<longrightarrow> isListening (state
            (run (concat (map (\<lambda>e. [Render, HeartbeatTick (Throws e)]) es)
                    @ [Render, HeartbeatTick Started]) w'))"
    unfolding run_append v_def [symmetric]
    using f1 fv heartbeat_resumes [of v] by simp
  show ?thesis
    unfolding s Let_def using f1 f3 by blast
qed

text \<open>
  C2, witness: the transcript \<open>hola\<close> is in flight and the call is rejected; two
  heartbeat ticks fail to start the recogniser and the third starts it.
\<close>

theorem intent_failure_silent_witness:
  "let w = run (greeted @ heard ''hola'') initialSession;
       w' = step (AiReply Rejected Started 0) w
   in pending w \<noteq> [] \<and> voiceActive (state w) \<and> hasRecognition w
      \<and> \<not> aiSpeaking (state w)
      \<and> speakTimers w' = speakTimers w \<and> synthQueue w' = synthQueue w \<and> spoken w' = spoken w
      \<and> appData (state w') = appData (state w) \<and> started w' = started w
      \<and> \<not> isProcessing (state w')
      \<and> isListening (state (run [Render, HeartbeatTick (Throws ''network''),
             Render, HeartbeatTick (Throws ''not-allowed''), Render, HeartbeatTick Started] w'))"
  using intent_failure_silent [of "run (greeted @ heard ''hola'') initialSession" Rejected Started 0
      "[''network'', ''not-allowed'']"]
  by (simp add: session_defs)

text \<open>
  C2 as stated fails: after a rejected call, and after the next render and speak timer,
  the greeting is still the only utterance ever given to the synthesiser. No fallback
  prompt is produced.
\<close>

theorem intent_failure_no_prompt:
  "let w = run (greeted @ heard ''hola'' @ [AiReply Rejected Started 0, Render, SpeakTimer])
             initialSession
   in spoken w = [greeting] \<and> speakTimers w = [] \<and> synthQueue w = []"
  by (simp add: session_defs)

text \<open>
  C3, as the code has it. A throw of \<open>recognition.start()\<close> is swallowed whatever its
  error, \<open>not-allowed\<close> included: with the voice switch on and the session idle, each of
  \<open>n\<close> heartbeat ticks whose \<open>start()\<close> throws \<open>e\<close> calls \<open>start()\<close> again, and the
  component state, the voice switch with it, stays as it was. An error event of the
  recogniser, whatever its code, leaves the voice switch on and the heartbeat installed.
\<close>

theorem start_failures_are_retried:
  assumes "voiceActive (state w)" and "hasRecognition w" and "\<not> isListening (state w)"
    and "\<not> aiSpeaking (state w)" and "\<not> isProcessing (state w)"
  shows "(let w' = run (concat (replicate n [Render, HeartbeatTick (Throws e)])) w
          in state w' = state w \<and> startCalls w' = startCalls w + n \<and> hasRecognition w')
       \<and> voiceActive (state (step (CaptureError e) w))
       \<and> heartbeat (step (CaptureError e) w) = heartbeat w"
  using heartbeat_retries [OF assms, of n e] assms(1)
  by (simp add: onerror_def setState_def)

text \<open>
  C3, witness: three heartbeat ticks after a first start that threw \<open>not-allowed\<close>.
\<close>

theorem start_failures_are_retried_witness:
  "let w = run (greeted @ [ResumeTimer (Throws ''not-allowed'')]) initialSession;
       w' = run (concat (replicate 3 [Render, HeartbeatTick (Throws ''not-allowed'')])) w
   in voiceActive (state w) \<and> hasRecognition w \<and> \<not> isListening (state w)
      \<and> \<not> aiSpeaking (state w) \<and> \<not> isProcessing (state w)
      \<and> state w' = state w \<and> startCalls w' = startCalls w + 3
      \<and> voiceActive (state (step (CaptureError ''not-allowed'') w))"
  using start_failures_are_retried
    [of "run (greeted @ [ResumeTimer (Throws ''not-allowed'')]) initialSession" 3 "''not-allowed''"]
  by (simp add: session_defs)

text \<open>
  C3 as stated fails: after \<open>start()\<close> has thrown \<open>not-allowed\<close>, or the recogniser
  has reported the error \<open>not-allowed\<close>, the heartbeat calls \<open>start()\<close> again on each
  tick, the voice switch stays on and the heartbeat stays installed.
\<close>

theorem permission_denied_not_terminal:
  "(let w = run (greeted @ [ResumeTimer (Throws ''not-allowed''), Render,
                  HeartbeatTick (Throws ''not-allowed''), Render,
                  HeartbeatTick (Throws ''not-allowed'')]) initialSession
    in startCalls w = 3 \<and> voiceActive (state w) \<and> heartbeat w)
   \<and> (let w = run (greeted @ [ResumeTimer Started, CaptureError ''not-allowed'', CaptureEnd,
                  Render, HeartbeatTick Started, CaptureError ''not-allowed'', CaptureEnd,
                  Render, HeartbeatTick Started]) initialSession
    in startCalls w = 3 \<and> voiceActive (state w) \<and> heartbeat w \<and> isListening (state w))"
  by (simp add: session_defs)

text \<open>
  C4, as the code has it. A dispatched \<open>NAVIGATE_DESTINATION\<close> switches the view to the
  passenger dashboard when the snapshot view is the passenger registration, and leaves
  the view as it is otherwise, the driver registration included. In every case
  \<open>handleSetDestination\<close> is called with the value of the intent: the call waits for
  the location when the snapshot has no pickup latitude, and resolves the destination
  otherwise.
\<close>

theorem navigate_destination_view:
  "(case getGeminiResponse now
           (Parsed \<lparr>action = ''NAVIGATE_DESTINATION'', ivalue = v, speech = sp\<rparr>) currentState w of
      Inl e \<Rightarrow> False
    | Inr w' \<Rightarrow>
        currentView (state w') =
          (if currentView currentState = PassengerRegister then PassengerDashboard
           else currentView (state w))
        \<and> (if falsy (pickupLat (tripRequest (stateRef w)))
           then locationRequests w' = locationRequests w @ [Some v]
                \<and> destinationCalls w' = destinationCalls w
           else locationRequests w' = locationRequests w
                \<and> destinationCalls w' = destinationCalls w @ [v]))"
  by (simp add: getGeminiResponse_def executeActions_def handleSetDestination_def
      handleGetCurrentLocation_def speak_def stopListening_def synthCancel_def setState_def Let_def)

text \<open>
  C4 as stated fails: a driver in the driver registration who names a destination stays
  in the driver registration.
\<close>

theorem navigate_destination_driver_register:
  "(let w = run (greeted @ heard ''conductor''
              @ answered \<lparr>action = ''NAVIGATE_DRIVER_REG'', ivalue = [], speech = ''Listo''\<rparr> 0
              @ heard ''a la plaza''
              @ answered \<lparr>action = ''NAVIGATE_DESTINATION'', ivalue = ''Plaza'', speech = ''Buscando''\<rparr> 0)
             initialSession
    in currentView (state w) = DriverRegister \<and> locationRequests w = [Some ''Plaza''])"
  by (simp add: session_defs)

text \<open>
  C5. When the guard of a dispatched intent does not hold (\<open>CONFIRM_TRIP\<close> outside the
  passenger dashboard or without a destination latitude in the snapshot,
  \<open>SET_PASSENGER_NAME\<close> or \<open>SET_DRIVER_NAME\<close> outside the matching registration view and
  the home view), the application data is unchanged, no asynchronous work is started,
  and the prompt of the intent is spoken (\<open>Entendido.\<close> when the intent has no
  prompt): \<open>speak\<close> schedules it, and once the pending 50 ms timeouts have fired it is
  the last utterance given to the synthesiser, with the application data still
  unchanged.
\<close>

theorem unmatched_guard_no_mutation:
  assumes "action d = ''CONFIRM_TRIP''
        \<and> \<not> (currentView currentState = PassengerDashboard
              \<and> \<not> falsy (destinationLat (tripRequest currentState)))
      \<or> action d = ''SET_PASSENGER_NAME''
        \<and> currentView currentState \<noteq> PassengerRegister \<and> currentView currentState \<noteq> Home
      \<or> action d = ''SET_DRIVER_NAME''
        \<and> currentView currentState \<noteq> DriverRegister \<and> currentView currentState \<noteq> Home"
  shows "(case getGeminiResponse now (Parsed d) currentState w of
      Inl e \<Rightarrow> False
    | Inr w' \<Rightarrow> appData (state w') = appData (state w) \<and> started w' = started w
        \<and> speakTimers w' = speakTimers w @ [if speech d = [] then ''Entendido.'' else speech d]
        \<and> spoken (run (replicate (length (speakTimers w')) SpeakTimer) w')
            = spoken w @ speakTimers w @ [if speech d = [] then ''Entendido.'' else speech d]
        \<and> synthQueue (run (replicate (length (speakTimers w')) SpeakTimer) w')
            = speakTimers w @ [if speech d = [] then ''Entendido.'' else speech d]
        \<and> appData (state (run (replicate (length (speakTimers w')) SpeakTimer) w'))
            = appData (state w))"
proof -
  have "executeActions now d currentState w = w"
    using assms by (elim disjE conjE) (auto simp: executeActions_def)
  then show ?thesis
    by (simp add: getGeminiResponse_def speak_delivered) (simp add: speak_effect)
qed

text \<open>
  C5, witness: a passenger whose driver is on the way says a name; the view is the
  active trip and the name stays \<open>Ana\<close>.
\<close>

theorem unmatched_guard_no_mutation_witness:
  "(let w = run driverOnTheWay initialSession;
        d = \<lparr>action = ''SET_PASSENGER_NAME'', ivalue = ''Luis'', speech = ''Hola Luis''\<rparr>
    in action d = ''SET_PASSENGER_NAME''
     \<and> currentView (stateRef w) \<noteq> PassengerRegister \<and> currentView (stateRef w) \<noteq> Home
     \<and> currentView (state w) = TripActive \<and> pName (passengerProfile (state w)) = ''Ana''
     \<and> speakTimers w = []
     \<and> (case getGeminiResponse 0 (Parsed d) (stateRef w) w of
          Inl e \<Rightarrow> False
        | Inr w' \<Rightarrow> appData (state w') = appData (state w) \<and> started w' = started w
            \<and> pName (passengerProfile (state w')) = ''Ana''
            \<and> speakTimers w' = [''Hola Luis'']
            \<and> spoken (run [SpeakTimer] w') = spoken w @ [''Hola Luis'']
            \<and> synthQueue (run [SpeakTimer] w') = [''Hola Luis'']))"
  using unmatched_guard_no_mutation
    [where d = "\<lparr>action = ''SET_PASSENGER_NAME'', ivalue = ''Luis'', speech = ''Hola Luis''\<rparr>"
       and currentState = "stateRef (run driverOnTheWay initialSession)"
       and now = 0 and w = "run driverOnTheWay initialSession"]
  by (simp add: session_defs)

text \<open>
  C6. A dispatched \<open>SET_PASSENGER_PHONE\<close> or \<open>SET_DRIVER_PHONE\<close> stores the digits of
  the value, and a dispatched \<open>SET_DRIVER_PLATE\<close> stores the letters and digits of the
  value, letters in upper case; \<open>310 555 9999\<close> becomes \<open>3105559999\<close> and \<open>x y z 555\<close>
  becomes \<open>XYZ555\<close>.
\<close>

theorem phone_and_plate_sanitised:
  "(case getGeminiResponse now
           (Parsed \<lparr>action = ''SET_PASSENGER_PHONE'', ivalue = v, speech = sp\<rparr>) currentState w of
      Inl e \<Rightarrow> False
    | Inr w' \<Rightarrow> pPhone (passengerProfile (state w')) = filter isDigit v)
   \<and> (case getGeminiResponse now
           (Parsed \<lparr>action = ''SET_DRIVER_PHONE'', ivalue = v, speech = sp\<rparr>) currentState w of
      Inl e \<Rightarrow> False
    | Inr w' \<Rightarrow> dPhone (driverProfile (state w')) = filter isDigit v)
   \<and> (case getGeminiResponse now
           (Parsed \<lparr>action = ''SET_DRIVER_PLATE'', ivalue = v, speech = sp\<rparr>) currentState w of
      Inl e \<Rightarrow> False
    | Inr w' \<Rightarrow> dPlate (driverProfile (state w')) = map upperChar (filter isAlnum v))
   \<and> (case getGeminiResponse now
           (Parsed \<lparr>action = ''SET_PASSENGER_PHONE'', ivalue = ''310 555 9999'', speech = sp\<rparr>)
           currentState w of
      Inl e \<Rightarrow> False
    | Inr w' \<Rightarrow> pPhone (passengerProfile (state w')) = ''3105559999'')
   \<and> (case getGeminiResponse now
           (Parsed \<lparr>action = ''SET_DRIVER_PLATE'', ivalue = ''x y z 555'', speech = sp\<rparr>)
           currentState w of
      Inl e \<Rightarrow> False
    | Inr w' \<Rightarrow> dPlate (driverProfile (state w')) = ''XYZ555'')"
proof -
  have x: "executeActions now \<lparr>action = ''SET_PASSENGER_PHONE'', ivalue = u, speech = sp\<rparr>
        currentState w
      = setState (\<lambda>s. s\<lparr>passengerProfile := (passengerProfile s)\<lparr>pPhone := stripNonDigits u\<rparr>\<rparr>) w"
    "executeActions now \<lparr>action = ''SET_DRIVER_PHONE'', ivalue = u, speech = sp\<rparr>
        currentState w
      = setState (\<lambda>s. s\<lparr>driverProfile := (driverProfile s)\<lparr>dPhone := stripNonDigits u\<rparr>\<rparr>) w"
    "executeActions now \<lparr>action = ''SET_DRIVER_PLATE'', ivalue = u, speech = sp\<rparr>
        currentState w
      = setState (\<lambda>s. s\<lparr>driverProfile := (driverProfile s)\<lparr>dPlate :=
          toUpperCase (stripNonAlnum u)\<rparr>\<rparr>) w" for u
    by (simp_all add: executeActions_def)
  show ?thesis
    by (simp add: getGeminiResponse_def x speak_def stopListening_def synthCancel_def
        setState_def Let_def phone_example plate_example)
       (simp add: strip_unfold)
qed

text \<open>
  C7. Each tick is meant to bring the driver closer to the pickup point. A passenger
  whose pickup point lies at latitude 0.005 gets a driver at latitude
  \<open>0.005 - 0.005 = 0\<close>; the tick takes the 0 for a missing coordinate and returns the
  trip as it is, although the driver is more than 0.0005 away.
\<close>

theorem driver_on_zero_coordinate_never_moves:
  "(let w = run (requestedTrip @ [TripTimer, Render]) initialSession
    in userType (stateRef w) = Some Passenger
     \<and> (case activeTrip (state w) of
          None \<Rightarrow> False
        | Some t \<Rightarrow> status t = StatusAccepted \<and> tPickupLat t = 0.005 \<and> driverLat t = Some 0
            \<and> 0.0005 \<le> distanceToTarget t)
     \<and> activeTrip (state (run [SimulationTick, Render, SimulationTick, Render] w))
         = activeTrip (state w))"
proof -
  have "(1 / 2000)\<^sup>2 \<le> (1 / 20000 :: real)"
    by (simp add: power2_eq_square)
  then have "1 / 2000 \<le> sqrt (1 / 20000)"
    by (rule real_le_rsqrt)
  then show ?thesis
    by (simp add: session_defs simulationTick_def distanceToTarget_def)
qed

text \<open>
  C8, as the code has it. The trip request is reset when a rating is submitted (going
  back from the rating view included) and when a trip is completed by a user who is not
  a passenger. Completing a trip as a passenger only opens the rating view, and going
  back from any other view, the search included, keeps the trip request.
\<close>

theorem trip_request_reset:
  "tripRequest (state (submitRating rating w)) = emptyRequest
   \<and> tripRequest (state (completeTrip w)) =
       (if userType (stateRef w) = Some Passenger then tripRequest (state w) else emptyRequest)
   \<and> currentView (state (completeTrip w)) =
       (if userType (stateRef w) = Some Passenger then RateDriver else DriverDashboard)
   \<and> tripRequest (state (goBack w)) =
       (if currentView (stateRef w) = RateDriver then emptyRequest else tripRequest (state w))
   \<and> activeTrip (state (goBack w)) =
       (if currentView (stateRef w) = Searching \<or> currentView (stateRef w) = RateDriver
        then None else activeTrip (state w))
   \<and> emptyRequest = \<lparr> pickupLat = None, pickupLng = None, pickupAddress = [],
        destinationLat = None, destinationLng = None, destinationAddress = [],
        distance = 0, price = 0 \<rparr>"
  by (simp add: submitRating_def completeTrip_def goBack_def speak_def stopListening_def
      synthCancel_def setState_def emptyRequest_def Let_def)

text \<open>
  C8 as stated fails: cancelling the search clears the active trip and keeps the trip
  request, and so does completing the trip as a passenger.
\<close>

theorem cancel_search_keeps_request:
  "(let w = run (requestedTrip @ [GoBack]) initialSession
    in currentView (state w) = PassengerDashboard \<and> activeTrip (state w) = None
       \<and> tripRequest (state w) \<noteq> emptyRequest
       \<and> pickupLat (tripRequest (state w)) = Some 0.005
       \<and> destinationAddress (tripRequest (state w)) = ''Plaza'')
   \<and> (let w = run (requestedTrip @ [TripTimer, Render, CompleteTrip]) initialSession
    in currentView (state w) = RateDriver \<and> tripRequest (state w) \<noteq> emptyRequest)"
  by (simp add: session_defs)

text \<open>
  C9. Switching the voice assistant on and off again before the 50 ms timeout of
  \<open>speak\<close> has fired leaves all flags false and clears the heartbeat, but the timeout
  stays scheduled: when it fires, the greeting is given to the synthesiser although the
  voice switch is off.
\<close>

theorem greeting_spoken_after_disable:
  "(let w = run [ToggleVoice, Render, ToggleVoice, Render] initialSession
    in \<not> voiceActive (state w) \<and> \<not> heartbeat w \<and> \<not> isListening (state w)
       \<and> \<not> aiSpeaking (state w) \<and> \<not> isProcessing (state w) \<and> speakTimers w = [greeting]
       \<and> spoken (step SpeakTimer w) = [greeting] \<and> synthQueue (step SpeakTimer w) = [greeting])"
  by (simp add: session_defs)

text \<open>
  C10. When the snapshot view is the rating view, going back is \<open>submitRating(5)\<close>: the
  active trip is cleared, the trip request is reset, the view is the passenger
  dashboard and the thank-you prompt for 5 stars is spoken: \<open>speak\<close> schedules it, and
  once the pending 50 ms timeouts have fired it is the last utterance given to the
  synthesiser. A dispatched \<open>CANCEL\<close> does the same and then speaks the prompt of the
  intent after the thank-you prompt.
\<close>

theorem back_from_rating_submits_five_stars:
  assumes "currentView (stateRef w) = RateDriver"
  shows "goBack w = submitRating 5 w
     \<and> activeTrip (state (goBack w)) = None
     \<and> tripRequest (state (goBack w)) = emptyRequest
     \<and> currentView (state (goBack w)) = PassengerDashboard
     \<and> speakTimers (goBack w) = speakTimers w @ [''Gracias por calificar con 5 estrellas.'']
     \<and> spoken (run (replicate (length (speakTimers (goBack w))) SpeakTimer) (goBack w))
         = spoken w @ speakTimers w @ [''Gracias por calificar con 5 estrellas.'']
     \<and> synthQueue (run (replicate (length (speakTimers (goBack w))) SpeakTimer) (goBack w))
         = speakTimers w @ [''Gracias por calificar con 5 estrellas.'']
     \<and> (case getGeminiResponse now (Parsed \<lparr>action = ''CANCEL'', ivalue = v, speech = sp\<rparr>)
               currentState w of
          Inl e \<Rightarrow> False
        | Inr w' \<Rightarrow> activeTrip (state w') = None \<and> tripRequest (state w') = emptyRequest
            \<and> currentView (state w') = PassengerDashboard
            \<and> speakTimers w' = speakTimers w @ [''Gracias por calificar con 5 estrellas.'',
                 if sp = [] then ''Entendido.'' else sp]
            \<and> spoken (run (replicate (length (speakTimers w')) SpeakTimer) w')
                = spoken w @ speakTimers w @ [''Gracias por calificar con 5 estrellas.'',
                    if sp = [] then ''Entendido.'' else sp])"
proof -
  have g: "goBack w = submitRating 5 w"
    using assms by (simp add: goBack_def)
  have x: "executeActions now \<lparr>action = ''CANCEL'', ivalue = v, speech = sp\<rparr> currentState w
      = submitRating 5 w"
    using g by (simp add: executeActions_def)
  define w3 where "w3 = setState (\<lambda>s. s\<lparr>currentView := PassengerDashboard\<rparr>)
      (setState (\<lambda>s. s\<lparr>tripRequest := emptyRequest\<rparr>)
        (setState (\<lambda>s. s\<lparr>activeTrip := None\<rparr>) w))"
  have r: "submitRating 5 w = speak ''Gracias por calificar con 5 estrellas.'' w3"
    by (simp add: submitRating_def digits5 w3_def Let_def)
  have f: "speakTimers w3 = speakTimers w" "spoken w3 = spoken w"
    "activeTrip (state w3) = None" "tripRequest (state w3) = emptyRequest"
    "currentView (state w3) = PassengerDashboard"
    by (simp_all add: w3_def setState_def)
  have k: "activeTrip (state (speak t u)) = activeTrip (state u)"
    "tripRequest (state (speak t u)) = tripRequest (state u)"
    "currentView (state (speak t u)) = currentView (state u)" for t u
    by (simp_all add: speak_def stopListening_def synthCancel_def setState_def Let_def)
  show ?thesis
    unfolding g r
    by (simp add: getGeminiResponse_def x r speak_delivered) (simp add: speak_effect k f)
qed

text \<open>
  C10, witness: a passenger has completed a trip and is asked for a rating.
\<close>

theorem back_from_rating_submits_five_stars_witness:
  "(let w = run askedForRating initialSession
    in currentView (stateRef w) = RateDriver
     \<and> activeTrip (state w) \<noteq> None \<and> tripRequest (state w) \<noteq> emptyRequest
     \<and> goBack w = submitRating 5 w
     \<and> activeTrip (state (goBack w)) = None
     \<and> tripRequest (state (goBack w)) = emptyRequest
     \<and> currentView (state (goBack w)) = PassengerDashboard
     \<and> speakTimers (goBack w) = [''Gracias por calificar con 5 estrellas.'']
     \<and> spoken (run [SpeakTimer] (goBack w))
         = spoken w @ [''Gracias por calificar con 5 estrellas.'']
     \<and> synthQueue (run [SpeakTimer] (goBack w)) = [''Gracias por calificar con 5 estrellas.''])"
  using back_from_rating_submits_five_stars
    [where w = "run askedForRating initialSession"]
  by (simp add: session_defs)

end
